theory Spec2Isabelle
  imports Complex_Main
begin

section \<open>The environment-variable configuration loader\<close>

text \<open>
  A shallow embedding of the Go package \<open>config\<close> (files \<open>config.go\<close>,
  \<open>parsers.go\<close>, \<open>validators.go\<close>, \<open>constants.go\<close>).  The package walks a
  structure by reflection, reads one environment variable per annotated leaf
  field, converts the string with a parser chosen by the field's kind and runs
  the registered validators.

  Conventions of the model.
  \<^item> A \<open>reflect.Value\<close> is a pair of a type (\<open>gotype\<close>) and a value (\<open>val\<close>);
    in-place mutation is explicit state passing, so every operation returns the
    field as it is afterwards.
  \<^item> An operation ends in one of three ways (\<open>outcome\<close>): it returns \<open>nil\<close>,
    it returns an error, or it panics.  In the first two cases the field as it
    stands afterwards is part of the result.
  \<^item> The native \<open>int\<close> is 64 bits wide.
  \<^item> Struct fields are exported and reached through a pointer, so they are
    settable; the read-only flag of \<open>reflect\<close> is not modelled.
  \<^item> Floating-point numbers are kept abstract: a \<open>float64\<close> is the real number
    it denotes, an infinity or NaN, with the comparisons of IEEE 754.  Rounding
    is never computed here; the three library operations that round are taken
    as parameters (\<open>floatlib\<close>).
\<close>

subsection \<open>Kinds, types and values of \<open>reflect\<close>\<close>

datatype kind =
    reflect_Invalid | reflect_Bool
  | reflect_Int | reflect_Int8 | reflect_Int16 | reflect_Int32 | reflect_Int64
  | reflect_Uint | reflect_Uint8 | reflect_Uint16 | reflect_Uint32 | reflect_Uint64
  | reflect_Uintptr | reflect_Float32 | reflect_Float64
  | reflect_Complex64 | reflect_Complex128
  | reflect_Array | reflect_Chan | reflect_Func | reflect_Interface | reflect_Map
  | reflect_Ptr | reflect_Slice | reflect_String | reflect_Struct
  | reflect_UnsafePointer

text \<open>A struct tag is the list of its \<open>key:"value"\<close> pairs in the order written;
  \<open>Get\<close> returns the value of the first pair with the key and the empty string
  when there is none.\<close>

type_synonym StructTag = "(string \<times> string) list"

definition Get :: "StructTag \<Rightarrow> string \<Rightarrow> string" where
  "Get tag key = (case map_of tag key of None \<Rightarrow> [] | Some v \<Rightarrow> v)"

text \<open>
  Types.  \<open>Basic k\<close> is the predeclared type of a scalar kind (\<open>bool\<close>, \<open>int\<close>,
  \<open>int64\<close>, \<open>float64\<close>, \<open>string\<close>, \<open>complex64\<close>, ...) and stands for an
  uninterpreted type of any other kind; \<open>Named n t\<close> is a defined type with
  underlying type \<open>t\<close>; a struct type lists its fields (\<open>reflect.StructField\<close>:
  name, tag, type).
\<close>

datatype gotype =
    Basic kind
  | Named string gotype
  | SliceOf gotype
  | StructOf "StructField list"
and StructField = StructField (Name: string) (Tag: StructTag) (Type: gotype)

fun Kind :: "gotype \<Rightarrow> kind" where
  "Kind (Basic k) = k"
| "Kind (Named n t) = Kind t"
| "Kind (SliceOf t) = reflect_Slice"
| "Kind (StructOf fs) = reflect_Struct"

fun Elem :: "gotype \<Rightarrow> gotype option" where
  "Elem (Basic k) = None"
| "Elem (Named n t) = Elem t"
| "Elem (SliceOf t) = Some t"
| "Elem (StructOf fs) = None"

fun Fields :: "gotype \<Rightarrow> StructField list option" where
  "Fields (Basic k) = None"
| "Fields (Named n t) = Fields t"
| "Fields (SliceOf t) = None"
| "Fields (StructOf fs) = Some fs"

definition time_Duration :: gotype where
  "time_Duration = Named ''time.Duration'' (Basic reflect_Int64)"

definition time_Time :: gotype where
  "time_Time = Named ''time.Time''
     (StructOf [StructField ''wall'' [] (Basic reflect_Uint64),
                StructField ''ext'' [] (Basic reflect_Int64),
                StructField ''loc'' [] (Basic reflect_Ptr)])"

datatype float64 = Finite real | PosInf | NegInf | NaN

fun flt_less :: "float64 \<Rightarrow> float64 \<Rightarrow> bool" where
  "flt_less NaN y = False"
| "flt_less x NaN = False"
| "flt_less (Finite a) (Finite b) = (a < b)"
| "flt_less (Finite a) PosInf = True"
| "flt_less (Finite a) NegInf = False"
| "flt_less NegInf NegInf = False"
| "flt_less NegInf y = True"
| "flt_less PosInf y = False"

fun flt_eq :: "float64 \<Rightarrow> float64 \<Rightarrow> bool" where
  "flt_eq NaN y = False"
| "flt_eq x NaN = False"
| "flt_eq x y = (x = y)"

text \<open>
  Values.  Signed integers of every width (and durations) are \<open>VInt\<close>, unsigned
  ones \<open>VUint\<close>; a slice is the list of its elements (\<open>nil\<close> and the empty
  slice are both \<open>VSlice []\<close>); a struct is the list of its field values in
  declaration order; \<open>VOpaque\<close> stands for a value of a kind the package never
  looks into (complex numbers, pointers, channels, ...), \<open>VOpaque 0\<close> being the
  zero value of its type.  A field of interface type holds \<open>VInterface dt dv\<close>
  when the interface contains a value \<open>dv\<close> of the (concrete) dynamic type
  \<open>dt\<close>; the nil interface is the zero value \<open>VOpaque 0\<close>, and another
  \<open>VOpaque\<close> is an interface containing a value the model does not interpret.
\<close>

datatype val =
    VBool bool
  | VInt int
  | VUint nat
  | VFloat float64
  | VString string
  | VSlice "val list"
  | VMap "(val \<times> val) list"
  | VStruct "val list"
  | VOpaque nat
  | VInterface gotype val

fun Zero :: "gotype \<Rightarrow> val"
and ZeroFields :: "StructField list \<Rightarrow> val list" where
  "Zero (Basic k) =
     (if k = reflect_Bool then VBool False
      else if k \<in> {reflect_Int, reflect_Int8, reflect_Int16, reflect_Int32,
                reflect_Int64} then VInt 0
      else if k \<in> {reflect_Uint, reflect_Uint8, reflect_Uint16, reflect_Uint32,
                reflect_Uint64, reflect_Uintptr} then VUint 0
      else if k \<in> {reflect_Float32, reflect_Float64} then VFloat (Finite 0)
      else if k = reflect_String then VString []
      else if k = reflect_Slice then VSlice []
      else if k = reflect_Map then VMap []
      else VOpaque 0)"
| "Zero (Named n t) = Zero t"
| "Zero (SliceOf t) = VSlice []"
| "Zero (StructOf fs) = VStruct (ZeroFields fs)"
| "ZeroFields [] = []"
| "ZeroFields (StructField n tg t # fs) = Zero t # ZeroFields fs"

subsection \<open>Errors and outcomes\<close>

datatype num_err = ErrSyntax | ErrRange

text \<open>
  The errors the package and the library functions it calls create.  A plain
  message is \<open>Errorf m\<close>; the formatted and wrapping errors keep their
  arguments:
  \<^item> \<open>FieldError n e\<close> is \<open>fmt.Errorf("field %s: %w", n, e)\<close>;
  \<^item> \<open>UnsupportedType k\<close> is \<open>fmt.Errorf("unsupported type: %v", k)\<close>;
  \<^item> \<open>UnsupportedSliceElem k\<close> is
    \<open>fmt.Errorf("unsupported slice element type: %v", k)\<close>;
  \<^item> \<open>RangeError m e\<close> is \<open>fmt.Errorf("%s: %w", m, e)\<close>;
  \<^item> \<open>InvalidMin e\<close>, \<open>InvalidMax e\<close> are \<open>"invalid min value: %w"\<close> and
    \<open>"invalid max value: %w"\<close>;
  \<^item> \<open>IntLessThanMin v m\<close> is \<open>"value %d is less than minimum %d"\<close>,
    \<open>IntGreaterThanMax v m\<close> is \<open>"value %d is greater than maximum %d"\<close>, and
    the two \<open>Float\<close> constructors are the same messages with \<open>%f\<close>;
  \<^item> \<open>UnsupportedIntegerType t\<close> is \<open>"unsupported integer type: %T"\<close>;
  \<^item> \<open>NumError f s c\<close> is \<open>strconv.NumError\<close> (function, input, cause);
  \<^item> \<open>InvalidDuration s\<close>, \<open>MissingUnit s\<close> and \<open>UnknownUnit u s\<close> are the
    errors of \<open>time.ParseDuration\<close> on the input \<open>s\<close>
    (\<open>"time: invalid duration"\<close>, \<open>"time: missing unit in duration"\<close>,
    \<open>"time: unknown unit u in duration"\<close>);
  \<^item> \<open>External m\<close> is an error returned by a parser or validator that the
    caller registered.
\<close>

datatype error =
    Errorf string
  | FieldError string error
  | UnsupportedType kind
  | UnsupportedSliceElem kind
  | RangeError string error
  | InvalidMin error
  | InvalidMax error
  | IntLessThanMin int int
  | IntGreaterThanMax int int
  | FloatLessThanMin float64 float64
  | FloatGreaterThanMax float64 float64
  | UnsupportedIntegerType gotype
  | NumError string string num_err
  | InvalidDuration string
  | MissingUnit string
  | UnknownUnit string string
  | External string

datatype ('e, 'a) outcome = Done 'a | Failed 'e 'a | Panicked

subsection \<open>Constants (\<open>constants.go\<close>)\<close>

definition EnvTag :: string where "EnvTag = ''env''"
definition RequiredTag :: string where "RequiredTag = ''required''"
definition DefaultTag :: string where "DefaultTag = ''default''"
definition MinTag :: string where "MinTag = ''min''"
definition MaxTag :: string where "MaxTag = ''max''"
definition RangeErrTag :: string where "RangeErrTag = ''range_error''"
definition TagTrue :: string where "TagTrue = ''true''"
definition ErrRequiredField :: string where "ErrRequiredField = ''required field is empty''"
definition ErrOutOfRange :: string where "ErrOutOfRange = ''value out of range''"
definition ErrConfigNotPtr :: string where "ErrConfigNotPtr = ''config must be a pointer''"

subsection \<open>The library functions the package calls\<close>

text \<open>
  \<open>os.Getenv\<close>: the process environment is a partial map; a variable that is
  not set reads as the empty string.
\<close>

type_synonym environ = "string \<rightharpoonup> string"

definition Getenv :: "environ \<Rightarrow> string \<Rightarrow> string" where
  "Getenv env key = (case env key of None \<Rightarrow> [] | Some v \<Rightarrow> v)"

text \<open>\<open>strings.Split(s, ",")\<close>: one more part than there are separators.\<close>

fun Split :: "string \<Rightarrow> char \<Rightarrow> string list" where
  "Split [] sep = [[]]"
| "Split (c # cs) sep =
     (if c = sep then [] # Split cs sep
      else (case Split cs sep of
              [] \<Rightarrow> [[c]]
            | p # ps \<Rightarrow> (c # p) # ps))"

definition isDigit :: "char \<Rightarrow> bool" where
  "isDigit c = (48 \<le> (of_char c :: nat) \<and> (of_char c :: nat) \<le> 57)"

definition digit :: "char \<Rightarrow> nat" where
  "digit c = of_char c - 48"

text \<open>
  \<open>strconv.ParseUint(s, 10, 64)\<close>: the digits are read left to right; the first
  character that is not a decimal digit is a syntax error, and the value
  leaving 64 bits is a range error, whichever comes first.
\<close>

definition maxUint64 :: nat where
  "maxUint64 = 2 ^ 64 - 1"

fun ParseUint_loop :: "nat \<Rightarrow> string \<Rightarrow> num_err + nat" where
  "ParseUint_loop n [] = Inr n"
| "ParseUint_loop n (c # cs) =
     (if \<not> isDigit c then Inl ErrSyntax
      else if n \<ge> maxUint64 div 10 + 1 then Inl ErrRange
      else (let n1 = n * 10 + digit c
            in if n1 > maxUint64 then Inl ErrRange else ParseUint_loop n1 cs))"

definition ParseUint :: "string \<Rightarrow> num_err + nat" where
  "ParseUint s = (if s = [] then Inl ErrSyntax else ParseUint_loop 0 s)"

text \<open>
  \<open>strconv.ParseInt(s, 10, 64)\<close>, with the name of the calling function for the
  error: an optional sign, then \<open>ParseUint\<close>, then the check against
  \<open>2\<^sup>6\<^sup>3\<close>.  \<open>strconv.Atoi\<close> returns the same values on a 64-bit
  platform and names itself in the error.
\<close>

definition ParseInt_as :: "string \<Rightarrow> string \<Rightarrow> error + int" where
  "ParseInt_as fn s =
     (if s = [] then Inl (NumError fn s ErrSyntax)
      else (let neg = (hd s = CHR ''-'');
                s1 = (if hd s = CHR ''+'' \<or> hd s = CHR ''-'' then tl s else s)
            in case ParseUint s1 of
                 Inl ErrSyntax \<Rightarrow> Inl (NumError fn s ErrSyntax)
               | Inl ErrRange \<Rightarrow> Inl (NumError fn s ErrRange)
               | Inr un \<Rightarrow>
                   if \<not> neg \<and> un \<ge> 2 ^ 63 then Inl (NumError fn s ErrRange)
                   else if neg \<and> un > 2 ^ 63 then Inl (NumError fn s ErrRange)
                   else Inr (if neg then - int un else int un)))"

definition ParseInt :: "string \<Rightarrow> error + int" where
  "ParseInt s = ParseInt_as ''ParseInt'' s"

definition Atoi :: "string \<Rightarrow> error + int" where
  "Atoi s = ParseInt_as ''Atoi'' s"

text \<open>\<open>strconv.ParseBool\<close>.\<close>

definition ParseBool :: "string \<Rightarrow> error + bool" where
  "ParseBool s =
     (if s \<in> {''1'', ''t'', ''T'', ''TRUE'', ''true'', ''True''} then Inr True
      else if s \<in> {''0'', ''f'', ''F'', ''FALSE'', ''false'', ''False''} then Inr False
      else Inl (NumError ''ParseBool'' s ErrSyntax))"

text \<open>
  The three operations that round a floating-point number are parameters:
  \<open>strconv.ParseFloat(s, 64)\<close>, the conversion \<open>float32(x)\<close>, and the
  expression \<open>uint64(float64(f) * (float64(unit) / scale))\<close> with which
  \<open>time.ParseDuration\<close> converts the digits after a decimal point to
  nanoseconds.
\<close>

record floatlib =
  ParseFloat :: "string \<Rightarrow> num_err + float64"
  ToFloat32 :: "float64 \<Rightarrow> float64"
  FracNanos :: "nat \<Rightarrow> nat \<Rightarrow> nat \<Rightarrow> nat"

text \<open>
  \<open>time.ParseDuration\<close>, on the pattern \<open>[-+]?([0-9]*(\.[0-9]*)?[a-z]+)+\<close>.
  \<open>leadingInt\<close> reads the digits before the point and fails when they leave
  \<open>2\<^sup>6\<^sup>3\<close>; \<open>leadingFraction\<close> reads the digits after it and stops
  accumulating (without failing) when they would overflow.
\<close>

fun leadingInt :: "nat \<Rightarrow> string \<Rightarrow> (nat \<times> string) option" where
  "leadingInt x [] = Some (x, [])"
| "leadingInt x (c # cs) =
     (if \<not> isDigit c then Some (x, c # cs)
      else if x > 2 ^ 63 div 10 then None
      else (let x1 = x * 10 + digit c
            in if x1 > 2 ^ 63 then None else leadingInt x1 cs))"

fun leadingFraction :: "nat \<Rightarrow> nat \<Rightarrow> bool \<Rightarrow> string \<Rightarrow> nat \<times> nat \<times> string" where
  "leadingFraction x scale overflow [] = (x, scale, [])"
| "leadingFraction x scale overflow (c # cs) =
     (if \<not> isDigit c then (x, scale, c # cs)
      else if overflow then leadingFraction x scale True cs
      else if x > (2 ^ 63 - 1) div 10 then leadingFraction x scale True cs
      else (let y = x * 10 + digit c
            in if y > 2 ^ 63 then leadingFraction x scale True cs
               else leadingFraction y (scale * 10) False cs))"

definition unitMap :: "string \<Rightarrow> nat option" where
  "unitMap u =
     (if u = ''ns'' then Some 1
      else if u = ''us'' then Some 1000
      else if u = [CHR 0xC2, CHR 0xB5, CHR ''s''] then Some 1000
      else if u = [CHR 0xCE, CHR 0xBC, CHR ''s''] then Some 1000
      else if u = ''ms'' then Some 1000000
      else if u = ''s'' then Some 1000000000
      else if u = ''m'' then Some 60000000000
      else if u = ''h'' then Some 3600000000000
      else None)"

definition isNumChar :: "char \<Rightarrow> bool" where
  "isNumChar c = (c = CHR ''.'' \<or> isDigit c)"

text \<open>One pass of the loop of \<open>ParseDuration\<close>: a number, an optional fraction
  and a unit.  The result is the term's nanoseconds and the rest of the
  string.\<close>

definition durationTerm :: "floatlib \<Rightarrow> string \<Rightarrow> string \<Rightarrow> error + (nat \<times> string)" where
  "durationTerm fl orig s =
     (if \<not> (s \<noteq> [] \<and> isNumChar (hd s)) then Inl (InvalidDuration orig)
      else case leadingInt 0 s of
        None \<Rightarrow> Inl (InvalidDuration orig)
      | Some (v, s1) \<Rightarrow>
          (let pre = (length s \<noteq> length s1);
               hasPoint = (s1 \<noteq> [] \<and> hd s1 = CHR ''.'');
               fr = (if hasPoint then leadingFraction 0 1 False (tl s1) else (0, 1, s1));
               f = fst fr; scale = fst (snd fr); s2 = snd (snd fr);
               post = (hasPoint \<and> length (tl s1) \<noteq> length s2)
           in if \<not> pre \<and> \<not> post then Inl (InvalidDuration orig)
              else (let u = takeWhile (\<lambda>c. \<not> isNumChar c) s2;
                        s3 = dropWhile (\<lambda>c. \<not> isNumChar c) s2
                    in if u = [] then Inl (MissingUnit orig)
                       else case unitMap u of
                         None \<Rightarrow> Inl (UnknownUnit u orig)
                       | Some unit \<Rightarrow>
                           if v > 2 ^ 63 div unit then Inl (InvalidDuration orig)
                           else (let v1 = v * unit
                                 in if f > 0
                                    then (let v2 = (v1 + FracNanos fl f scale unit) mod 2 ^ 64
                                          in if v2 > 2 ^ 63 then Inl (InvalidDuration orig)
                                             else Inr (v2, s3))
                                    else Inr (v1, s3)))))"

lemma leadingInt_length:
  "leadingInt x s = Some (v, r) \<Longrightarrow> length r \<le> length s"
proof (induction x s rule: leadingInt.induct)
  case (1 x)
  then show ?case by simp
next
  case (2 x c cs)
  show ?case
  proof (cases "isDigit c")
    case False
    with "2.prems" show ?thesis by simp
  next
    case True
    with "2.prems" have "leadingInt (x * 10 + digit c) cs = Some (v, r)"
      and "\<not> 2 ^ 63 div 10 < x" and "\<not> 2 ^ 63 < x * 10 + digit c"
      by (auto simp: Let_def split: if_splits)
    with "2.IH" [OF _ _ refl] True have "length r \<le> length cs" by simp
    then show ?thesis by simp
  qed
qed

lemma leadingFraction_length:
  "length (snd (snd (leadingFraction x sc ov s))) \<le> length s"
  by (induction x sc ov s rule: leadingFraction.induct)
     (auto simp: Let_def le_SucI)

lemma durationTerm_shorter:
  assumes "durationTerm fl orig s = Inr (v, r)"
  shows "length r < length s"
proof -
  from assms obtain w s1 where li: "leadingInt 0 s = Some (w, s1)"
    by (auto simp: durationTerm_def split: if_splits option.splits)
  define hasPoint where "hasPoint = (s1 \<noteq> [] \<and> hd s1 = CHR ''.'')"
  define s2 where
    "s2 = snd (snd (if hasPoint then leadingFraction 0 1 False (tl s1) else (0, 1, s1)))"
  have l1: "length s1 \<le> length s" using li by (rule leadingInt_length)
  have l2: "length s2 \<le> length s1"
    using leadingFraction_length [of 0 1 False "tl s1"]
    by (auto simp: s2_def)
  from assms li have u: "takeWhile (\<lambda>c. \<not> isNumChar c) s2 \<noteq> []"
    and r: "r = dropWhile (\<lambda>c. \<not> isNumChar c) s2"
    by (auto simp: durationTerm_def Let_def s2_def hasPoint_def
             split: if_splits option.splits)
  have "length (takeWhile (\<lambda>c. \<not> isNumChar c) s2) + length r = length s2"
    unfolding r by (metis length_append takeWhile_dropWhile_id)
  with u have "length r < length s2"
    by (cases "takeWhile (\<lambda>c. \<not> isNumChar c) s2") auto
  with l1 l2 show ?thesis by simp
qed

function ParseDuration_loop :: "floatlib \<Rightarrow> string \<Rightarrow> nat \<Rightarrow> string \<Rightarrow> error + nat" where
  "ParseDuration_loop fl orig d s =
     (if s = [] then Inr d
      else case durationTerm fl orig s of
        Inl e \<Rightarrow> Inl e
      | Inr (v, r) \<Rightarrow>
          (let d1 = (d + v) mod 2 ^ 64
           in if d1 > 2 ^ 63 then Inl (InvalidDuration orig)
              else ParseDuration_loop fl orig d1 r))"
  by pat_completeness auto
termination
  by (relation "measure (\<lambda>(fl, orig, d, s). length s)")
     (auto dest: durationTerm_shorter)

definition ParseDuration :: "floatlib \<Rightarrow> string \<Rightarrow> error + int" where
  "ParseDuration fl orig =
     (let neg = (orig \<noteq> [] \<and> hd orig = CHR ''-'');
          s = (if orig \<noteq> [] \<and> (hd orig = CHR ''-'' \<or> hd orig = CHR ''+'')
               then tl orig else orig)
      in if s = ''0'' then Inr 0
         else if s = [] then Inl (InvalidDuration orig)
         else case ParseDuration_loop fl orig 0 s of
           Inl e \<Rightarrow> Inl e
         | Inr d \<Rightarrow>
             if neg then Inr (- int d)
             else if d > 2 ^ 63 - 1 then Inl (InvalidDuration orig)
             else Inr (int d))"

subsection \<open>Setting a field through \<open>reflect\<close>\<close>

text \<open>
  Each setter panics unless the field has the right kind.  \<open>SetInt\<close> stores
  the 64-bit argument converted to the field's width, which wraps.  \<open>Set\<close>
  takes a value with its type and panics unless that type is the field's (the
  package only ever passes a value of the field's own type or a
  \<open>time.Duration\<close>; assignment to a field of interface type is not modelled).
\<close>

definition intBits :: "kind \<Rightarrow> nat option" where
  "intBits k =
     (if k = reflect_Int \<or> k = reflect_Int64 then Some 64
      else if k = reflect_Int32 then Some 32
      else if k = reflect_Int16 then Some 16
      else if k = reflect_Int8 then Some 8
      else None)"

definition wrapInt :: "nat \<Rightarrow> int \<Rightarrow> int" where
  "wrapInt w x = (x + 2 ^ (w - 1)) mod 2 ^ w - 2 ^ (w - 1)"

definition SetString :: "gotype \<Rightarrow> string \<Rightarrow> (error, val) outcome" where
  "SetString t x = (if Kind t = reflect_String then Done (VString x) else Panicked)"

definition SetInt :: "gotype \<Rightarrow> int \<Rightarrow> (error, val) outcome" where
  "SetInt t x =
     (case intBits (Kind t) of
        Some w \<Rightarrow> Done (VInt (wrapInt w x))
      | None \<Rightarrow> Panicked)"

definition SetBool :: "gotype \<Rightarrow> bool \<Rightarrow> (error, val) outcome" where
  "SetBool t x = (if Kind t = reflect_Bool then Done (VBool x) else Panicked)"

definition SetFloat :: "floatlib \<Rightarrow> gotype \<Rightarrow> float64 \<Rightarrow> (error, val) outcome" where
  "SetFloat fl t x =
     (if Kind t = reflect_Float64 then Done (VFloat x)
      else if Kind t = reflect_Float32 then Done (VFloat (ToFloat32 fl x))
      else Panicked)"

definition Set :: "gotype \<Rightarrow> gotype \<Rightarrow> val \<Rightarrow> (error, val) outcome" where
  "Set t tx x = (if tx = t then Done x else Panicked)"

subsection \<open>Parsers (\<open>parsers.go\<close>)\<close>

text \<open>
  The implementations of the interface \<open>ValueParser\<close>: the seven of the package
  and the ones a caller registers.  A registered parser is any function of the
  raw string and the field (its type and current value) that ends by returning
  \<open>nil\<close>, returning an error (its message) or panicking, and that touches
  nothing but the field it is given.
\<close>

datatype ValueParser =
    StringParser
  | Int64Parser
  | IntParser
  | SliceParser
  | DurationParser
  | BoolParser
  | Float64Parser
  | CustomParser "string \<Rightarrow> gotype \<Rightarrow> val \<Rightarrow> (string, val) outcome"

definition StringParser_Parse :: "string \<Rightarrow> gotype \<Rightarrow> val \<Rightarrow> (error, val) outcome" where
  "StringParser_Parse value t v = SetString t value"

definition Int64Parser_Parse :: "string \<Rightarrow> gotype \<Rightarrow> val \<Rightarrow> (error, val) outcome" where
  "Int64Parser_Parse value t v =
     (if value = [] then Done v
      else case ParseInt value of
        Inl err \<Rightarrow> Failed err v
      | Inr x \<Rightarrow> SetInt t x)"

definition IntParser_Parse :: "string \<Rightarrow> gotype \<Rightarrow> val \<Rightarrow> (error, val) outcome" where
  "IntParser_Parse value t v =
     (if value = [] then Done v
      else case Atoi value of
        Inl err \<Rightarrow> Failed err v
      | Inr x \<Rightarrow> SetInt t x)"

definition DurationParser_Parse ::
  "floatlib \<Rightarrow> string \<Rightarrow> gotype \<Rightarrow> val \<Rightarrow> (error, val) outcome" where
  "DurationParser_Parse fl value t v =
     (if value = [] then Done v
      else (let value1 = (case Atoi value of Inr n \<Rightarrow> value @ ''s'' | Inl err \<Rightarrow> value)
            in case ParseDuration fl value1 of
                 Inl err \<Rightarrow> Failed err v
               | Inr d \<Rightarrow> Set t time_Duration (VInt d)))"

definition BoolParser_Parse :: "string \<Rightarrow> gotype \<Rightarrow> val \<Rightarrow> (error, val) outcome" where
  "BoolParser_Parse value t v =
     (if value = [] then Done v
      else case ParseBool value of
        Inl err \<Rightarrow> Failed err v
      | Inr x \<Rightarrow> SetBool t x)"

definition Float64Parser_Parse ::
  "floatlib \<Rightarrow> string \<Rightarrow> gotype \<Rightarrow> val \<Rightarrow> (error, val) outcome" where
  "Float64Parser_Parse fl value t v =
     (if value = [] then Done v
      else case ParseFloat fl value of
        Inl c \<Rightarrow> Failed (NumError ''ParseFloat'' value c) v
      | Inr x \<Rightarrow> SetFloat fl t x)"

definition CustomParser_Parse ::
  "(string \<Rightarrow> gotype \<Rightarrow> val \<Rightarrow> (string, val) outcome) \<Rightarrow>
   string \<Rightarrow> gotype \<Rightarrow> val \<Rightarrow> (error, val) outcome" where
  "CustomParser_Parse f value t v =
     (case f value t v of
        Done v1 \<Rightarrow> Done v1
      | Failed m v1 \<Rightarrow> Failed (External m) v1
      | Panicked \<Rightarrow> Panicked)"

definition defaultParsers :: "kind \<Rightarrow> ValueParser option" where
  "defaultParsers =
     [reflect_String \<mapsto> StringParser,
      reflect_Int64 \<mapsto> Int64Parser,
      reflect_Int \<mapsto> IntParser,
      reflect_Slice \<mapsto> SliceParser,
      reflect_Bool \<mapsto> BoolParser,
      reflect_Float64 \<mapsto> Float64Parser]"

text \<open>The element parsers of \<open>ParseWithContext\<close>: those of the provider when
  one is given (and is not \<open>nil\<close>), those of \<open>defaultParsers\<close> otherwise.\<close>

definition getParser ::
  "(kind \<Rightarrow> ValueParser option) option \<Rightarrow> kind \<Rightarrow> ValueParser option" where
  "getParser parserProvider =
     (case parserProvider of
        Some g \<Rightarrow> g
      | None \<Rightarrow> defaultParsers)"

lemma Elem_size: "Elem t = Some et \<Longrightarrow> size et < size t"
  by (induction t) auto

text \<open>
  \<open>Parse\<close> dispatches on the implementation.  \<open>SliceParser.Parse\<close> calls
  \<open>ParseWithContext\<close> with no provider, which then takes the element parser
  from \<open>defaultParsers\<close>.  \<open>parseElems\<close> is the \<open>for\<close> loop of
  \<open>ParseWithContext\<close>: every part is parsed into a fresh zero element, which is
  appended to the slice being assembled.
\<close>

function Parse ::
  "floatlib \<Rightarrow> ValueParser \<Rightarrow> string \<Rightarrow> gotype \<Rightarrow> val \<Rightarrow> (error, val) outcome"
and ParseWithContext ::
  "floatlib \<Rightarrow> string \<Rightarrow> gotype \<Rightarrow> val \<Rightarrow> (kind \<Rightarrow> ValueParser option) option \<Rightarrow>
   (error, val) outcome"
and parseElems ::
  "floatlib \<Rightarrow> ValueParser \<Rightarrow> gotype \<Rightarrow> string list \<Rightarrow> val list \<Rightarrow>
   (error, val list) outcome"
where
  "Parse fl p value t v =
     (case p of
        StringParser \<Rightarrow> StringParser_Parse value t v
      | Int64Parser \<Rightarrow> Int64Parser_Parse value t v
      | IntParser \<Rightarrow> IntParser_Parse value t v
      | SliceParser \<Rightarrow> ParseWithContext fl value t v None
      | DurationParser \<Rightarrow> DurationParser_Parse fl value t v
      | BoolParser \<Rightarrow> BoolParser_Parse value t v
      | Float64Parser \<Rightarrow> Float64Parser_Parse fl value t v
      | CustomParser f \<Rightarrow> CustomParser_Parse f value t v)"
| "ParseWithContext fl value t v parserProvider =
     (if value = [] then Done v
      else if Kind t \<noteq> reflect_Slice then Panicked
      else case Elem t of
        None \<Rightarrow> Panicked
      | Some et \<Rightarrow>
          (let values = Split value CHR '',''
           in case getParser parserProvider (Kind et) of
                None \<Rightarrow> Failed (UnsupportedSliceElem (Kind et)) v
              | Some elemParser \<Rightarrow>
                  (case parseElems fl elemParser et values [] of
                     Done slice \<Rightarrow> Set t t (VSlice slice)
                   | Failed err slice \<Rightarrow> Failed err v
                   | Panicked \<Rightarrow> Panicked)))"
| "parseElems fl elemParser et [] slice = Done slice"
| "parseElems fl elemParser et (x # xs) slice =
     (case Parse fl elemParser x et (Zero et) of
        Done elem \<Rightarrow> parseElems fl elemParser et xs (slice @ [elem])
      | Failed err elem \<Rightarrow> Failed err slice
      | Panicked \<Rightarrow> Panicked)"
  by pat_completeness auto
termination
  by (relation "measures
       [\<lambda>x. case x of
          Inl (fl, p, value, t, v) \<Rightarrow> 3 * size t + 1
        | Inr (Inl (fl, value, t, v, pp)) \<Rightarrow> 3 * size t
        | Inr (Inr (fl, p, et, xs, slice)) \<Rightarrow> 3 * size et + 2,
        \<lambda>x. case x of
          Inr (Inr (fl, p, et, xs, slice)) \<Rightarrow> length xs
        | _ \<Rightarrow> 0]")
     (auto dest: Elem_size)

subsection \<open>Validators (\<open>validators.go\<close>)\<close>

text \<open>
  The accessors of \<open>reflect.Value\<close> that the validators read.  In Go a value
  always has the shape of its type; \<open>hasType\<close> says so for the model, and on
  the other shapes the accessors return the zero of their result type.
\<close>

fun Len :: "val \<Rightarrow> nat" where
  "Len (VSlice xs) = length xs"
| "Len (VMap kvs) = length kvs"
| "Len (VString x) = length x"
| "Len v = 0"

fun StringOf :: "val \<Rightarrow> string" where
  "StringOf (VString x) = x"
| "StringOf v = []"

fun IntOf :: "val \<Rightarrow> int" where
  "IntOf (VInt x) = x"
| "IntOf v = 0"

fun FloatOf :: "val \<Rightarrow> float64" where
  "FloatOf (VFloat x) = x"
| "FloatOf v = Finite 0"

definition uintBits :: "kind \<Rightarrow> nat option" where
  "uintBits k =
     (if k = reflect_Uint \<or> k = reflect_Uint64 \<or> k = reflect_Uintptr then Some 64
      else if k = reflect_Uint32 then Some 32
      else if k = reflect_Uint16 then Some 16
      else if k = reflect_Uint8 then Some 8
      else None)"

fun hasType :: "gotype \<Rightarrow> val \<Rightarrow> bool"
and haveTypes :: "StructField list \<Rightarrow> val list \<Rightarrow> bool" where
  "hasType (Basic k) v =
     (case v of
        VBool b \<Rightarrow> k = reflect_Bool
      | VInt x \<Rightarrow> (case intBits k of
                    Some w \<Rightarrow> - (2 ^ (w - 1)) \<le> x \<and> x < 2 ^ (w - 1)
                  | None \<Rightarrow> False)
      | VUint n \<Rightarrow> (case uintBits k of Some w \<Rightarrow> n < 2 ^ w | None \<Rightarrow> False)
      | VFloat x \<Rightarrow> k = reflect_Float32 \<or> k = reflect_Float64
      | VString x \<Rightarrow> k = reflect_String
      | VSlice xs \<Rightarrow> False
      | VMap kvs \<Rightarrow> k = reflect_Map
      | VStruct vs \<Rightarrow> False
      | VOpaque n \<Rightarrow> k \<in> {reflect_Complex64, reflect_Complex128, reflect_Array,
                           reflect_Chan, reflect_Func, reflect_Interface, reflect_Ptr,
                           reflect_UnsafePointer}
      | VInterface dt dv \<Rightarrow> k = reflect_Interface \<and> Kind dt \<noteq> reflect_Interface)"
| "hasType (Named n t) v = hasType t v"
| "hasType (SliceOf t) v =
     (case v of VSlice xs \<Rightarrow> (\<forall>x \<in> set xs. hasType t x) | _ \<Rightarrow> False)"
| "hasType (StructOf fs) v =
     (case v of VStruct vs \<Rightarrow> haveTypes fs vs | _ \<Rightarrow> False)"
| "haveTypes [] vs = (vs = [])"
| "haveTypes (StructField n tg t # fs) vs =
     (case vs of [] \<Rightarrow> False | v # vs1 \<Rightarrow> hasType t v \<and> haveTypes fs vs1)"

text \<open>
  The implementations of the interface \<open>Validator\<close>: the two of the package and
  the ones a caller registers (any function of the field and its tag, with the
  same three ways to end as a registered parser).
\<close>

datatype Validator =
    RequiredValidator
  | RangeValidator
  | CustomValidator "gotype \<Rightarrow> val \<Rightarrow> StructTag \<Rightarrow> (string, val) outcome"

text \<open>The last case of \<open>isZeroValue\<close> is \<open>reflect.DeepEqual\<close> with the zero value of
  the field's type.\<close>

definition isZeroValue :: "gotype \<Rightarrow> val \<Rightarrow> bool" where
  "isZeroValue t v =
     (let k = Kind t
      in if k = reflect_Slice \<or> k = reflect_Map then Len v = 0
         else if k = reflect_String then StringOf v = []
         else if k \<in> {reflect_Int, reflect_Int8, reflect_Int16, reflect_Int32,
                       reflect_Int64} then IntOf v = 0
         else if k = reflect_Float32 \<or> k = reflect_Float64
           then flt_eq (FloatOf v) (Finite 0)
         else v = Zero t)"

definition RequiredValidator_Validate :: "gotype \<Rightarrow> val \<Rightarrow> StructTag \<Rightarrow> error option" where
  "RequiredValidator_Validate t v tags =
     (if Get tags RequiredTag \<noteq> TagTrue then None
      else if isZeroValue t v then Some (Errorf ErrRequiredField)
      else None)"

definition validateIntRange :: "gotype \<Rightarrow> val \<Rightarrow> string \<Rightarrow> string \<Rightarrow> error option" where
  "validateIntRange t v minStr maxStr =
     (if t \<noteq> Basic reflect_Int \<and> t \<noteq> Basic reflect_Int64
      then Some (UnsupportedIntegerType t)
      else (let val = IntOf v;
                lo = (if minStr \<noteq> []
                      then (case ParseInt minStr of
                              Inl err \<Rightarrow> Some (InvalidMin err)
                            | Inr m \<Rightarrow> if val < m then Some (IntLessThanMin val m) else None)
                      else None)
            in case lo of
                 Some err \<Rightarrow> Some err
               | None \<Rightarrow>
                   if maxStr \<noteq> []
                   then (case ParseInt maxStr of
                           Inl err \<Rightarrow> Some (InvalidMax err)
                         | Inr m \<Rightarrow> if val > m then Some (IntGreaterThanMax val m) else None)
                   else None))"

definition validateFloatRange :: "floatlib \<Rightarrow> float64 \<Rightarrow> string \<Rightarrow> string \<Rightarrow> error option" where
  "validateFloatRange fl value minStr maxStr =
     (let lo = (if minStr \<noteq> []
                then (case ParseFloat fl minStr of
                        Inl c \<Rightarrow> Some (InvalidMin (NumError ''ParseFloat'' minStr c))
                      | Inr m \<Rightarrow> if flt_less value m
                                then Some (FloatLessThanMin value m) else None)
                else None)
      in case lo of
           Some err \<Rightarrow> Some err
         | None \<Rightarrow>
             if maxStr \<noteq> []
             then (case ParseFloat fl maxStr of
                     Inl c \<Rightarrow> Some (InvalidMax (NumError ''ParseFloat'' maxStr c))
                   | Inr m \<Rightarrow> if flt_less m value
                             then Some (FloatGreaterThanMax value m) else None)
             else None)"

text \<open>
  \<open>field.Interface()\<close>: the field's value as an \<open>interface{}\<close>, that is, a
  dynamic type with a value, or nothing for the nil interface.  For a field of
  interface kind it is the value the interface contains; for every other field
  it is the field's value with the field's own type.
\<close>

definition Interface :: "gotype \<Rightarrow> val \<Rightarrow> (gotype \<times> val) option" where
  "Interface t v =
     (if Kind t = reflect_Interface
      then (case v of VInterface dt dv \<Rightarrow> Some (dt, dv) | _ \<Rightarrow> None)
      else Some (t, v))"

text \<open>The type switch of \<open>RangeValidator.Validate\<close> is on the dynamic type of
  \<open>field.Interface()\<close>: exactly \<open>int\<close>, \<open>int64\<close> or \<open>float64\<close>.\<close>

definition RangeValidator_Validate ::
  "floatlib \<Rightarrow> gotype \<Rightarrow> val \<Rightarrow> StructTag \<Rightarrow> error option" where
  "RangeValidator_Validate fl t v tags =
     (let min = Get tags MinTag; max = Get tags MaxTag
      in if min = [] \<and> max = [] then None
         else (let errMsg = (if Get tags RangeErrTag = [] then ErrOutOfRange
                             else Get tags RangeErrTag);
                   err = (case Interface t v of
                            None \<Rightarrow> None
                          | Some (dt, dv) \<Rightarrow>
                              if dt = Basic reflect_Int \<or> dt = Basic reflect_Int64
                              then validateIntRange dt dv min max
                              else if dt = Basic reflect_Float64
                              then validateFloatRange fl (FloatOf dv) min max
                              else None)
               in case err of
                    Some e \<Rightarrow> Some (RangeError errMsg e)
                  | None \<Rightarrow> None))"

definition Validate ::
  "floatlib \<Rightarrow> Validator \<Rightarrow> gotype \<Rightarrow> val \<Rightarrow> StructTag \<Rightarrow> (error, val) outcome" where
  "Validate fl vd t v tags =
     (case vd of
        RequiredValidator \<Rightarrow>
          (case RequiredValidator_Validate t v tags of
             None \<Rightarrow> Done v | Some err \<Rightarrow> Failed err v)
      | RangeValidator \<Rightarrow>
          (case RangeValidator_Validate fl t v tags of
             None \<Rightarrow> Done v | Some err \<Rightarrow> Failed err v)
      | CustomValidator f \<Rightarrow>
          (case f t v tags of
             Done v1 \<Rightarrow> Done v1
           | Failed m v1 \<Rightarrow> Failed (External m) v1
           | Panicked \<Rightarrow> Panicked))"

subsection \<open>The loader (\<open>config.go\<close>)\<close>

record EnvLoader =
  parsers :: "kind \<Rightarrow> ValueParser option"
  validators :: "Validator list"
  prefix :: string

datatype Option =
    WithParser kind ValueParser
  | WithValidator Validator
  | WithPrefix string

fun applyOption :: "Option \<Rightarrow> EnvLoader \<Rightarrow> EnvLoader" where
  "applyOption (WithParser k parser) l = l\<lparr>parsers := (parsers l)(k \<mapsto> parser)\<rparr>"
| "applyOption (WithValidator validator) l = l\<lparr>validators := validators l @ [validator]\<rparr>"
| "applyOption (WithPrefix p) l = l\<lparr>prefix := p\<rparr>"

definition NewEnvLoader :: "Option list \<Rightarrow> EnvLoader" where
  "NewEnvLoader opts =
     fold applyOption opts
       \<lparr>parsers = [reflect_String \<mapsto> StringParser,
                   reflect_Int64 \<mapsto> Int64Parser,
                   reflect_Int \<mapsto> IntParser,
                   reflect_Slice \<mapsto> SliceParser,
                   reflect_Bool \<mapsto> BoolParser,
                   reflect_Float64 \<mapsto> Float64Parser],
        validators = [RequiredValidator, RangeValidator],
        prefix = []\<rparr>"

definition defaultLoader :: EnvLoader where
  "defaultLoader = NewEnvLoader []"

definition isTimeType :: "gotype \<Rightarrow> bool" where
  "isTimeType t = (t = time_Time)"

definition isNestedStruct :: "gotype \<Rightarrow> bool" where
  "isNestedStruct t = (Kind t = reflect_Struct \<and> \<not> isTimeType t)"

definition getParserForType :: "EnvLoader \<Rightarrow> kind \<Rightarrow> ValueParser option" where
  "getParserForType l k = parsers l k"

definition getEnvValueWithDefault ::
  "environ \<Rightarrow> EnvLoader \<Rightarrow> string \<Rightarrow> StructField \<Rightarrow> string" where
  "getEnvValueWithDefault env l envKey fieldType =
     (let envKey1 = (if prefix l \<noteq> [] then prefix l @ envKey else envKey);
          envValue = Getenv env envKey1
      in if envValue = []
         then (let defaultValue = Get (Tag fieldType) ''default''
               in if defaultValue \<noteq> [] then defaultValue else envValue)
         else envValue)"

fun validateLoop ::
  "floatlib \<Rightarrow> Validator list \<Rightarrow> gotype \<Rightarrow> val \<Rightarrow> StructTag \<Rightarrow> (error, val) outcome" where
  "validateLoop fl [] t v tags = Done v"
| "validateLoop fl (validator # rest) t v tags =
     (case Validate fl validator t v tags of
        Done v1 \<Rightarrow> validateLoop fl rest t v1 tags
      | Failed err v1 \<Rightarrow> Failed err v1
      | Panicked \<Rightarrow> Panicked)"

definition validateField ::
  "floatlib \<Rightarrow> EnvLoader \<Rightarrow> val \<Rightarrow> StructField \<Rightarrow> (error, val) outcome" where
  "validateField fl l v fieldType =
     validateLoop fl (validators l) (Type fieldType) v (Tag fieldType)"

definition parseAndValidateDuration ::
  "floatlib \<Rightarrow> EnvLoader \<Rightarrow> string \<Rightarrow> val \<Rightarrow> StructField \<Rightarrow> (error, val) outcome" where
  "parseAndValidateDuration fl l envValue v fieldType =
     (case Parse fl DurationParser envValue (Type fieldType) v of
        Done v1 \<Rightarrow> validateField fl l v1 fieldType
      | Failed err v1 \<Rightarrow> Failed err v1
      | Panicked \<Rightarrow> Panicked)"

definition parseAndValidateSlice ::
  "floatlib \<Rightarrow> EnvLoader \<Rightarrow> string \<Rightarrow> val \<Rightarrow> StructField \<Rightarrow> (error, val) outcome" where
  "parseAndValidateSlice fl l envValue v fieldType =
     (case ParseWithContext fl envValue (Type fieldType) v (Some (getParserForType l)) of
        Done v1 \<Rightarrow> validateField fl l v1 fieldType
      | Failed err v1 \<Rightarrow> Failed err v1
      | Panicked \<Rightarrow> Panicked)"

definition parseAndValidateField ::
  "floatlib \<Rightarrow> EnvLoader \<Rightarrow> string \<Rightarrow> val \<Rightarrow> StructField \<Rightarrow> (error, val) outcome" where
  "parseAndValidateField fl l envValue v fieldType =
     (if Type fieldType = time_Duration
      then parseAndValidateDuration fl l envValue v fieldType
      else if Kind (Type fieldType) = reflect_Slice
      then parseAndValidateSlice fl l envValue v fieldType
      else case parsers l (Kind (Type fieldType)) of
        None \<Rightarrow> Failed (UnsupportedType (Kind (Type fieldType))) v
      | Some parser \<Rightarrow>
          (case Parse fl parser envValue (Type fieldType) v of
             Done v1 \<Rightarrow> validateField fl l v1 fieldType
           | Failed err v1 \<Rightarrow> Failed err v1
           | Panicked \<Rightarrow> Panicked))"

definition loadField ::
  "floatlib \<Rightarrow> environ \<Rightarrow> EnvLoader \<Rightarrow> val \<Rightarrow> StructField \<Rightarrow> (error, val) outcome" where
  "loadField fl env l v fieldType =
     (let envKey = Get (Tag fieldType) ''env''
      in if envKey = [] then Done v
         else parseAndValidateField fl l
                (getEnvValueWithDefault env l envKey fieldType) v fieldType)"

lemma Fields_size: "Fields t = Some fs \<Longrightarrow> size_list size fs < size t"
  by (induction t) auto

text \<open>
  \<open>loadStruct\<close> takes the struct's type and value; \<open>loadFields\<close> is its \<open>for\<close>
  loop over the fields that are left.  \<open>NumField\<close> panics on a value that is
  not a struct.  On an error the fields after the failing one have not been
  reached, and the struct is returned as it stands.
\<close>

function loadStruct ::
  "floatlib \<Rightarrow> environ \<Rightarrow> EnvLoader \<Rightarrow> gotype \<Rightarrow> val \<Rightarrow> (error, val) outcome"
and loadFields ::
  "floatlib \<Rightarrow> environ \<Rightarrow> EnvLoader \<Rightarrow> StructField list \<Rightarrow> val list \<Rightarrow>
   (error, val list) outcome"
where
  "loadStruct fl env l t v =
     (case Fields t of
        None \<Rightarrow> Panicked
      | Some fs \<Rightarrow>
          (case v of
             VStruct vs \<Rightarrow>
               (case loadFields fl env l fs vs of
                  Done vs1 \<Rightarrow> Done (VStruct vs1)
                | Failed err vs1 \<Rightarrow> Failed err (VStruct vs1)
                | Panicked \<Rightarrow> Panicked)
           | _ \<Rightarrow> Panicked))"
| "loadFields fl env l [] vs = Done vs"
| "loadFields fl env l (StructField n tg t # fs) [] = Panicked"
| "loadFields fl env l (StructField n tg t # fs) (field # vs) =
     (case (if isNestedStruct t then loadStruct fl env l t field
            else loadField fl env l field (StructField n tg t)) of
        Done field1 \<Rightarrow>
          (case loadFields fl env l fs vs of
             Done vs1 \<Rightarrow> Done (field1 # vs1)
           | Failed err vs1 \<Rightarrow> Failed err (field1 # vs1)
           | Panicked \<Rightarrow> Panicked)
      | Failed err field1 \<Rightarrow> Failed (FieldError n err) (field1 # vs)
      | Panicked \<Rightarrow> Panicked)"
  by pat_completeness auto
termination
  by (relation "measure (\<lambda>x. case x of
         Inl (fl, env, l, t, v) \<Rightarrow> size t
       | Inr (fl, env, l, fs, vs) \<Rightarrow> size_list size fs)")
     (auto dest: Fields_size)

text \<open>
  The argument of \<open>LoadConfig\<close> is an \<open>interface{}\<close>: the nil interface, a
  pointer to a value of some type (or the nil pointer of that type), or a
  value that is not a pointer.
\<close>

datatype config =
    NilInterface
  | NonPointer gotype val
  | Pointer gotype "val option"

fun configKind :: "config \<Rightarrow> kind" where
  "configKind NilInterface = reflect_Invalid"
| "configKind (NonPointer t v) = Kind t"
| "configKind (Pointer t p) = reflect_Ptr"

text \<open>A \<open>NonPointer\<close> of pointer kind would be a pointer the model cannot follow;
  such a pointer is written \<open>Pointer\<close>, and \<open>LoadConfig\<close> gives the other form
  no result.\<close>

definition LoadConfig ::
  "floatlib \<Rightarrow> environ \<Rightarrow> EnvLoader \<Rightarrow> config \<Rightarrow> (error, config) outcome" where
  "LoadConfig fl env l cfg =
     (if configKind cfg \<noteq> reflect_Ptr
      then Failed (Errorf ''config must be a pointer'') cfg
      else case cfg of
        Pointer t (Some v) \<Rightarrow>
          (case loadStruct fl env l t v of
             Done v1 \<Rightarrow> Done (Pointer t (Some v1))
           | Failed err v1 \<Rightarrow> Failed err (Pointer t (Some v1))
           | Panicked \<Rightarrow> Panicked)
      | _ \<Rightarrow> Panicked)"

definition LoadConfig_default :: "floatlib \<Rightarrow> environ \<Rightarrow> config \<Rightarrow> (error, config) outcome" where
  "LoadConfig_default fl env cfg = LoadConfig fl env defaultLoader cfg"

subsection \<open>Statements of the specification, in its own words\<close>

text \<open>
  The raw value of a field as the specification describes it: the value of the
  environment variable named by the prefix followed by the declared key if
  that value is not empty, otherwise the declared default if it is not empty,
  otherwise the empty string.
\<close>

definition rawValue_spec :: "environ \<Rightarrow> string \<Rightarrow> string \<Rightarrow> string \<Rightarrow> string" where
  "rawValue_spec env pfx key dflt =
     (case env (pfx @ key) of
        Some x \<Rightarrow> if x \<noteq> [] then x else if dflt \<noteq> [] then dflt else []
      | None \<Rightarrow> if dflt \<noteq> [] then dflt else [])"

text \<open>
  The zero value as the specification lists it: the empty string, a zero
  number, a sequence of length zero, or equality with the default of the type.
\<close>

definition zeroValue_spec :: "gotype \<Rightarrow> val \<Rightarrow> bool" where
  "zeroValue_spec t v =
     (case v of
        VString x \<Rightarrow> x = []
      | VInt x \<Rightarrow> x = 0
      | VUint n \<Rightarrow> n = 0
      | VFloat x \<Rightarrow> flt_eq x (Finite 0)
      | VSlice xs \<Rightarrow> length xs = 0
      | VMap kvs \<Rightarrow> length kvs = 0
      | _ \<Rightarrow> v = Zero t)"




subsection \<open>A library instance for running the model\<close>

text \<open>
  The examples below run the model on concrete inputs and need the rounding
  operations at those inputs only.  \<open>exampleFloatlib\<close> knows the literals
  \<open>0\<close>, \<open>50\<close>, \<open>100\<close>, \<open>101\<close> and \<open>NaN\<close>, on which it returns what
  Go returns, and rejects every other string.
\<close>

definition exampleFloatlib :: floatlib where
  "exampleFloatlib =
     \<lparr>ParseFloat = (\<lambda>s. if s = ''0'' then Inr (Finite 0)
                         else if s = ''50'' then Inr (Finite 50)
                         else if s = ''100'' then Inr (Finite 100)
                         else if s = ''101'' then Inr (Finite 101)
                         else if s = ''NaN'' then Inr NaN
                         else Inl ErrSyntax),
      ToFloat32 = (\<lambda>x. x),
      FracNanos = (\<lambda>f scale unit. f * unit div scale)\<rparr>"

section \<open>Properties\<close>

declare Parse.simps [simp del] ParseWithContext.simps [simp del]
declare loadStruct.simps [simp del]
declare ParseDuration_loop.simps [simp del]

lemmas strconv_defs =
  Atoi_def ParseInt_def ParseInt_as_def ParseUint_def isDigit_def digit_def
  maxUint64_def ParseBool_def

lemmas duration_defs =
  ParseDuration_def ParseDuration_loop.simps durationTerm_def isNumChar_def isDigit_def
  digit_def unitMap_def

lemmas setter_defs =
  SetString_def SetInt_def SetBool_def SetFloat_def Set_def intBits_def wrapInt_def

lemmas parser_defs =
  StringParser_Parse_def Int64Parser_Parse_def IntParser_Parse_def
  DurationParser_Parse_def BoolParser_Parse_def Float64Parser_Parse_def
  CustomParser_Parse_def

lemmas tag_defs =
  Get_def EnvTag_def RequiredTag_def DefaultTag_def MinTag_def MaxTag_def
  RangeErrTag_def TagTrue_def

lemmas validator_defs =
  Validate_def RequiredValidator_Validate_def RangeValidator_Validate_def Interface_def
  validateIntRange_def validateFloatRange_def isZeroValue_def

lemmas loader_defs =
  NewEnvLoader_def defaultLoader_def loadField_def parseAndValidateField_def
  parseAndValidateDuration_def parseAndValidateSlice_def validateField_def
  getEnvValueWithDefault_def getParserForType_def Getenv_def time_Duration_def
  isNestedStruct_def isTimeType_def time_Time_def

subsection \<open>The argument of \<open>LoadConfig\<close>\<close>

text \<open>
  C8 (as amended).  For every argument whose kind is not pointer (the nil
  interface included), \<open>LoadConfig\<close> returns the error
  \<open>"config must be a pointer"\<close> at once: the result does not depend on the
  environment or on the loader, and the argument is returned as it was.
\<close>

theorem LoadConfig_not_pointer:
  assumes "configKind cfg \<noteq> reflect_Ptr"
  shows "LoadConfig fl env l cfg = Failed (Errorf ErrConfigNotPtr) cfg"
  using assms by (simp add: LoadConfig_def ErrConfigNotPtr_def)

theorem LoadConfig_not_pointer_witness:
  "configKind (NonPointer (Basic reflect_Int) (VInt 7)) \<noteq> reflect_Ptr \<and>
   LoadConfig exampleFloatlib [''PORT'' \<mapsto> ''1''] defaultLoader
       (NonPointer (Basic reflect_Int) (VInt 7))
     = Failed (Errorf ''config must be a pointer'') (NonPointer (Basic reflect_Int) (VInt 7))"
  using LoadConfig_not_pointer [of "NonPointer (Basic reflect_Int) (VInt 7)"
      exampleFloatlib "[''PORT'' \<mapsto> ''1'']" defaultLoader]
  by (simp add: ErrConfigNotPtr_def)

text \<open>
  C8 as stated fails: a pointer to an \<open>int\<close> is not a pointer to a structure,
  yet \<open>LoadConfig\<close> passes the kind check and \<open>NumField\<close> panics on the
  pointee; no error is returned.
\<close>

theorem LoadConfig_pointer_to_int_counterexample:
  "LoadConfig exampleFloatlib Map.empty defaultLoader
       (Pointer (Basic reflect_Int) (Some (VInt 0))) = Panicked \<and>
   LoadConfig exampleFloatlib Map.empty defaultLoader
       (Pointer (Basic reflect_Int) (Some (VInt 0)))
     \<noteq> Failed (Errorf ''config must be a pointer'')
         (Pointer (Basic reflect_Int) (Some (VInt 0)))"
  by (simp add: LoadConfig_def loadStruct.simps)

subsection \<open>Resolving the raw value of a field\<close>

text \<open>
  C1.  For a leaf field with a non-empty \<open>env\<close> key, the raw value that
  \<open>loadField\<close> hands to parsing is the one the specification describes
  (\<open>rawValue_spec\<close>): the variable named by the loader's prefix followed by
  the key if it is set and not empty, otherwise the declared default if not
  empty, otherwise the empty string.  A variable that is set to the empty
  string gives the same result as an unset one, and with prefix \<open>APP_\<close> and
  key \<open>PORT\<close> the result depends on the environment through \<open>APP_PORT\<close>
  only.
\<close>

theorem raw_value_resolution:
  assumes "Get (Tag fieldType) ''env'' \<noteq> []"
  shows "getEnvValueWithDefault env l (Get (Tag fieldType) ''env'') fieldType
           = rawValue_spec env (prefix l) (Get (Tag fieldType) ''env'')
               (Get (Tag fieldType) ''default'') \<and>
         loadField fl env l v fieldType
           = parseAndValidateField fl l
               (rawValue_spec env (prefix l) (Get (Tag fieldType) ''env'')
                  (Get (Tag fieldType) ''default'')) v fieldType \<and>
         loadField fl (env(prefix l @ Get (Tag fieldType) ''env'' \<mapsto> [])) l v fieldType
           = loadField fl (env(prefix l @ Get (Tag fieldType) ''env'' := None)) l v fieldType \<and>
         (prefix l = ''APP_'' \<and> Get (Tag fieldType) ''env'' = ''PORT'' \<and>
          env ''APP_PORT'' = env1 ''APP_PORT'' \<longrightarrow>
            loadField fl env l v fieldType = loadField fl env1 l v fieldType)"
proof -
  have raw: "getEnvValueWithDefault e l k fieldType
               = rawValue_spec e (prefix l) k (Get (Tag fieldType) ''default'')" for e k
    by (auto simp: getEnvValueWithDefault_def rawValue_spec_def Getenv_def Let_def
             split: option.splits)
  have lf: "loadField fl e l v fieldType
              = parseAndValidateField fl l
                  (rawValue_spec e (prefix l) (Get (Tag fieldType) ''env'')
                     (Get (Tag fieldType) ''default'')) v fieldType" for e
    using assms by (simp add: loadField_def Let_def raw)
  show ?thesis
    by (simp add: raw lf) (simp add: rawValue_spec_def)
qed

theorem raw_value_resolution_witness:
  "Get [(''env'', ''PORT''), (''default'', ''8080'')] ''env'' \<noteq> [] \<and>
   getEnvValueWithDefault [''APP_PORT'' \<mapsto> ''9090'', ''PORT'' \<mapsto> ''1'']
       (NewEnvLoader [WithPrefix ''APP_'']) ''PORT''
       (StructField ''Port'' [(''env'', ''PORT''), (''default'', ''8080'')] (Basic reflect_Int))
     = ''9090'' \<and>
   loadField exampleFloatlib [''APP_PORT'' \<mapsto> [], ''PORT'' \<mapsto> ''1'']
       (NewEnvLoader [WithPrefix ''APP_'']) (VInt 0)
       (StructField ''Port'' [(''env'', ''PORT''), (''default'', ''8080'')] (Basic reflect_Int))
     = Done (VInt 8080)"
  using raw_value_resolution
    [of "StructField ''Port'' [(''env'', ''PORT''), (''default'', ''8080'')] (Basic reflect_Int)"
        "[''APP_PORT'' \<mapsto> ''9090'', ''PORT'' \<mapsto> ''1'']"
        "NewEnvLoader [WithPrefix ''APP_'']"]
  by (simp add: loader_defs tag_defs Parse.simps parser_defs strconv_defs setter_defs
        validator_defs)

subsection \<open>The scalar parsers on the empty string\<close>

text \<open>
  C5 (as amended).  For the parsers of \<open>int64\<close>, \<open>int\<close>, \<open>bool\<close> and
  \<open>float64\<close> and every target, parsing the empty string returns no error and
  leaves the target as it was, also when done twice.  The string parser has no
  such guard: on a string field it returns no error and assigns the empty
  string, so the target is unchanged only if it was empty already.
\<close>

theorem scalar_parsers_empty_noop:
  assumes "p \<in> {Int64Parser, IntParser, BoolParser, Float64Parser}"
  shows "Parse fl p [] t v = Done v \<and>
         (\<forall>v1. Parse fl p [] t v = Done v1 \<longrightarrow> Parse fl p [] t v1 = Done v) \<and>
         (Kind t = reflect_String \<longrightarrow>
            Parse fl StringParser [] t v = Done (VString []) \<and>
            Parse fl StringParser [] t (VString []) = Done (VString []))"
  using assms by (auto simp: Parse.simps parser_defs setter_defs)

theorem scalar_parsers_empty_noop_witness:
  "Int64Parser \<in> {Int64Parser, IntParser, BoolParser, Float64Parser} \<and>
   Parse exampleFloatlib Int64Parser [] (Basic reflect_Int64) (VInt 42) = Done (VInt 42) \<and>
   Kind (Basic reflect_String) = reflect_String \<and>
   Parse exampleFloatlib StringParser [] (Basic reflect_String) (VString [])
     = Done (VString [])"
  using scalar_parsers_empty_noop [of Int64Parser exampleFloatlib "Basic reflect_Int64" "VInt 42"]
        scalar_parsers_empty_noop [of Int64Parser exampleFloatlib "Basic reflect_String"
          "VString []"]
  by simp

text \<open>
  C5 as stated fails for the string parser: a string field holding \<open>abc\<close> is
  overwritten with the empty string.
\<close>

theorem StringParser_empty_counterexample:
  "Parse exampleFloatlib StringParser [] (Basic reflect_String) (VString ''abc'')
     = Done (VString []) \<and>
   Parse exampleFloatlib StringParser [] (Basic reflect_String) (VString ''abc'')
     \<noteq> Done (VString ''abc'')"
  by (simp add: Parse.simps parser_defs setter_defs)

subsection \<open>The required validator\<close>

lemma isZeroValue_Named: "isZeroValue (Named n t) v = isZeroValue t v"
  by (simp add: isZeroValue_def)

lemma zeroValue_spec_Named: "zeroValue_spec (Named n t) v = zeroValue_spec t v"
  by (cases v) (simp_all add: zeroValue_spec_def)

lemma isZeroValue_is_spec:
  "hasType t v \<Longrightarrow> isZeroValue t v = zeroValue_spec t v"
proof (induction t arbitrary: v rule: Kind.induct)
  case (1 k)
  then show ?case
    by (cases v)
       (auto simp: isZeroValue_def zeroValue_spec_def intBits_def uintBits_def
             split: if_splits)
next
  case (2 n t)
  then show ?case by (simp add: isZeroValue_Named zeroValue_spec_Named)
next
  case (3 t)
  then show ?case by (cases v) (auto simp: isZeroValue_def zeroValue_spec_def)
next
  case (4 fs)
  then show ?case by (cases v) (auto simp: isZeroValue_def zeroValue_spec_def)
qed

text \<open>
  C2.  On a field whose value has the shape of its type, the required validator
  fails exactly when the tag maps \<open>required\<close> to \<open>true\<close> and the value is
  the zero value in the specification's sense (\<open>zeroValue_spec\<close>), and then
  with the message \<open>"required field is empty"\<close>; with the key absent or any
  other literal it passes whatever the field.  In particular an empty slice
  and the boolean \<open>false\<close> fail when required, and the default loader rejects
  a required boolean field whose raw value parses to \<open>false\<close>.
\<close>

theorem required_validator:
  assumes "hasType t v"
  shows "(RequiredValidator_Validate t v tags \<noteq> None
            \<longleftrightarrow> Get tags ''required'' = ''true'' \<and> zeroValue_spec t v) \<and>
         (RequiredValidator_Validate t v tags \<noteq> None \<longrightarrow>
            RequiredValidator_Validate t v tags = Some (Errorf ''required field is empty'')) \<and>
         (Get tags ''required'' \<noteq> ''true'' \<longrightarrow>
            (\<forall>t1 v1. RequiredValidator_Validate t1 v1 tags = None)) \<and>
         (Get tags ''required'' = ''true'' \<longrightarrow>
            RequiredValidator_Validate (SliceOf t1) (VSlice []) tags
              = Some (Errorf ''required field is empty'') \<and>
            RequiredValidator_Validate (Basic reflect_Bool) (VBool False) tags
              = Some (Errorf ''required field is empty'')) \<and>
         (Get tags ''required'' = ''true'' \<and> ParseBool raw = Inr False \<longrightarrow>
            parseAndValidateField fl defaultLoader raw (VBool b)
                (StructField n tags (Basic reflect_Bool))
              = Failed (Errorf ''required field is empty'') (VBool False))"
proof -
  have z: "isZeroValue t v = zeroValue_spec t v"
    using assms by (rule isZeroValue_is_spec)
  have raw: "ParseBool raw = Inr False \<Longrightarrow> raw \<noteq> []"
    by (auto simp: ParseBool_def)
  have a: "RequiredValidator_Validate t v tags
             = (if Get tags ''required'' = ''true'' \<and> zeroValue_spec t v
                then Some (Errorf ''required field is empty'') else None)"
    by (simp add: RequiredValidator_Validate_def z RequiredTag_def TagTrue_def
          ErrRequiredField_def)
  have b: "Get tags ''required'' \<noteq> ''true'' \<Longrightarrow> RequiredValidator_Validate t2 v2 tags = None"
    for t2 v2
    by (simp add: RequiredValidator_Validate_def RequiredTag_def TagTrue_def)
  have c: "Get tags ''required'' = ''true'' \<Longrightarrow>
           RequiredValidator_Validate (SliceOf t1) (VSlice []) tags
             = Some (Errorf ''required field is empty'') \<and>
           RequiredValidator_Validate (Basic reflect_Bool) (VBool False) tags
             = Some (Errorf ''required field is empty'')"
    by (simp add: RequiredValidator_Validate_def RequiredTag_def TagTrue_def
          ErrRequiredField_def isZeroValue_def)
  have d: "Get tags ''required'' = ''true'' \<Longrightarrow> ParseBool raw = Inr False \<Longrightarrow>
           parseAndValidateField fl defaultLoader raw (VBool b)
               (StructField n tags (Basic reflect_Bool))
             = Failed (Errorf ''required field is empty'') (VBool False)"
    using raw c
    by (simp add: loader_defs Parse.simps BoolParser_Parse_def SetBool_def Validate_def)
  show ?thesis
    using b c d by (simp add: a)
qed

theorem required_validator_witness:
  "hasType (Basic reflect_String) (VString []) \<and>
   RequiredValidator_Validate (Basic reflect_String) (VString []) [(''required'', ''true'')]
     = Some (Errorf ''required field is empty'') \<and>
   RequiredValidator_Validate (Basic reflect_String) (VString []) [(''required'', ''false'')]
     = None \<and>
   Get [(''required'', ''true'')] ''required'' = ''true'' \<and>
   ParseBool ''false'' = Inr False \<and>
   parseAndValidateField exampleFloatlib defaultLoader ''false'' (VBool True)
       (StructField ''Debug'' [(''required'', ''true'')] (Basic reflect_Bool))
     = Failed (Errorf ''required field is empty'') (VBool False)"
  using required_validator [of "Basic reflect_String" "VString []" "[(''required'', ''true'')]"
          "Basic reflect_String" "''false''" exampleFloatlib True "''Debug''"]
  by (simp add: tag_defs ParseBool_def RequiredValidator_Validate_def isZeroValue_def
        zeroValue_spec_def ErrRequiredField_def)

subsection \<open>The range validator\<close>







subsection \<open>The slice parser assigns all elements or nothing\<close>

lemma parseElems_acc:
  "parseElems fl ep et xs acc = Done sl \<Longrightarrow>
     \<exists>es. sl = acc @ es \<and> list_all2 (\<lambda>x e. Parse fl ep x et (Zero et) = Done e) xs es"
proof (induction xs arbitrary: acc)
  case Nil
  then show ?case by simp
next
  case (Cons x xs)
  from Cons.prems obtain e where e: "Parse fl ep x et (Zero et) = Done e"
    and r: "parseElems fl ep et xs (acc @ [e]) = Done sl"
    by (auto split: outcome.splits)
  from Cons.IH [OF r] obtain es where "sl = (acc @ [e]) @ es"
    and "list_all2 (\<lambda>x e. Parse fl ep x et (Zero et) = Done e) xs es" by blast
  with e show ?case by (intro exI [of _ "e # es"]) simp
qed

lemma parseElems_failed_iff:
  "(\<exists>sl. parseElems fl ep et xs acc = Failed err sl) \<longleftrightarrow>
   (\<exists>pre x post. xs = pre @ x # post \<and>
      (\<forall>y \<in> set pre. \<exists>e. Parse fl ep y et (Zero et) = Done e) \<and>
      (\<exists>e. Parse fl ep x et (Zero et) = Failed err e))"
proof (induction xs arbitrary: acc)
  case Nil
  then show ?case by simp
next
  case (Cons a xs)
  show ?case
  proof (cases "Parse fl ep a et (Zero et)")
    case (Done e)
    have "(\<exists>sl. parseElems fl ep et (a # xs) acc = Failed err sl)
            = (\<exists>sl. parseElems fl ep et xs (acc @ [e]) = Failed err sl)"
      using Done by simp
    also have "\<dots> = (\<exists>pre x post. xs = pre @ x # post \<and>
      (\<forall>y \<in> set pre. \<exists>e. Parse fl ep y et (Zero et) = Done e) \<and>
      (\<exists>e. Parse fl ep x et (Zero et) = Failed err e))"
      by (rule Cons.IH)
    also have "\<dots> = (\<exists>pre x post. a # xs = pre @ x # post \<and>
      (\<forall>y \<in> set pre. \<exists>e. Parse fl ep y et (Zero et) = Done e) \<and>
      (\<exists>e. Parse fl ep x et (Zero et) = Failed err e))" (is "?L = ?R")
    proof
      assume ?L
      then obtain pre x post where "xs = pre @ x # post"
        "\<forall>y \<in> set pre. \<exists>e. Parse fl ep y et (Zero et) = Done e"
        "\<exists>e. Parse fl ep x et (Zero et) = Failed err e" by blast
      with Done show ?R
        by (intro exI [of _ "a # pre"] exI [of _ x] exI [of _ post]) simp
    next
      assume ?R
      then obtain pre x post where d: "a # xs = pre @ x # post"
        and p: "\<forall>y \<in> set pre. \<exists>e. Parse fl ep y et (Zero et) = Done e"
        and f: "\<exists>e. Parse fl ep x et (Zero et) = Failed err e" by blast
      show ?L
      proof (cases pre)
        case Nil
        with d f Done show ?thesis by simp
      next
        case (Cons b pre1)
        with d p f show ?thesis
          by (intro exI [of _ pre1] exI [of _ x] exI [of _ post]) simp
      qed
    qed
    finally show ?thesis .
  next
    case (Failed e1 el)
    show ?thesis
    proof
      assume "\<exists>sl. parseElems fl ep et (a # xs) acc = Failed err sl"
      with Failed have "e1 = err" by simp
      with Failed show "\<exists>pre x post. a # xs = pre @ x # post \<and>
        (\<forall>y \<in> set pre. \<exists>e. Parse fl ep y et (Zero et) = Done e) \<and>
        (\<exists>e. Parse fl ep x et (Zero et) = Failed err e)"
        by (intro exI [of _ "[]"] exI [of _ a] exI [of _ xs]) simp
    next
      assume "\<exists>pre x post. a # xs = pre @ x # post \<and>
        (\<forall>y \<in> set pre. \<exists>e. Parse fl ep y et (Zero et) = Done e) \<and>
        (\<exists>e. Parse fl ep x et (Zero et) = Failed err e)"
      then obtain pre x post where d: "a # xs = pre @ x # post"
        and p: "\<forall>y \<in> set pre. \<exists>e. Parse fl ep y et (Zero et) = Done e"
        and f: "\<exists>e. Parse fl ep x et (Zero et) = Failed err e" by blast
      show "\<exists>sl. parseElems fl ep et (a # xs) acc = Failed err sl"
      proof (cases pre)
        case Nil
        with d f Failed show ?thesis by auto
      next
        case (Cons b pre1)
        with d p Failed show ?thesis by auto
      qed
    qed
  next
    case Panicked
    show ?thesis
    proof
      assume "\<exists>sl. parseElems fl ep et (a # xs) acc = Failed err sl"
      with Panicked show "\<exists>pre x post. a # xs = pre @ x # post \<and>
        (\<forall>y \<in> set pre. \<exists>e. Parse fl ep y et (Zero et) = Done e) \<and>
        (\<exists>e. Parse fl ep x et (Zero et) = Failed err e)" by simp
    next
      assume "\<exists>pre x post. a # xs = pre @ x # post \<and>
        (\<forall>y \<in> set pre. \<exists>e. Parse fl ep y et (Zero et) = Done e) \<and>
        (\<exists>e. Parse fl ep x et (Zero et) = Failed err e)"
      then obtain pre x post where d: "a # xs = pre @ x # post"
        and p: "\<forall>y \<in> set pre. \<exists>e. Parse fl ep y et (Zero et) = Done e"
        and f: "\<exists>e. Parse fl ep x et (Zero et) = Failed err e" by blast
      show "\<exists>sl. parseElems fl ep et (a # xs) acc = Failed err sl"
      proof (cases pre)
        case Nil
        with d f Panicked show ?thesis by auto
      next
        case (Cons b pre1)
        with d p Panicked show ?thesis by auto
      qed
    qed
  qed
qed

lemma parseElems_no_panic:
  "\<forall>x \<in> set xs. Parse fl ep x et (Zero et) \<noteq> Panicked \<Longrightarrow>
   parseElems fl ep et xs acc \<noteq> Panicked"
  by (induction xs arbitrary: acc) (auto split: outcome.splits)

lemma list_all2_witness:
  "list_all2 P xs ys \<Longrightarrow> x \<in> set xs \<Longrightarrow> \<exists>y. P x y"
  by (induction xs ys rule: list_all2_induct) auto

text \<open>
  C9.  For a non-empty raw string and a slice-typed target,
  \<open>ParseWithContext\<close> returns an error and leaves the target as it was when
  the provider has no parser for the element kind, and when some
  comma-separated part fails its element parser: the error is that of the
  first part that fails, and an error is returned whenever any part fails
  (no part making the parser panic).  Whatever error it returns, the target
  is unchanged; the slice is assigned only when every part has parsed, and
  then it holds the parsed elements in order.
\<close>

theorem slice_parser_all_or_nothing:
  assumes "value \<noteq> []" and "Kind t = reflect_Slice" and "Elem t = Some et"
  shows "(getParser pp (Kind et) = None \<longrightarrow>
            ParseWithContext fl value t v pp = Failed (UnsupportedSliceElem (Kind et)) v) \<and>
         (\<forall>ep pre x post e el.
            getParser pp (Kind et) = Some ep \<and> Split value CHR '','' = pre @ x # post \<and>
            (\<forall>y \<in> set pre. \<exists>r. Parse fl ep y et (Zero et) = Done r) \<and>
            Parse fl ep x et (Zero et) = Failed e el \<longrightarrow>
              ParseWithContext fl value t v pp = Failed e v) \<and>
         (\<forall>ep. getParser pp (Kind et) = Some ep \<and>
            (\<exists>x \<in> set (Split value CHR '',''). \<exists>e el.
               Parse fl ep x et (Zero et) = Failed e el) \<and>
            (\<forall>x \<in> set (Split value CHR '',''). Parse fl ep x et (Zero et) \<noteq> Panicked) \<longrightarrow>
              (\<exists>e. ParseWithContext fl value t v pp = Failed e v)) \<and>
         (\<forall>e v1. ParseWithContext fl value t v pp = Failed e v1 \<longrightarrow> v1 = v) \<and>
         (\<forall>v1. ParseWithContext fl value t v pp = Done v1 \<longrightarrow>
            (\<exists>ep es. getParser pp (Kind et) = Some ep \<and> v1 = VSlice es \<and>
               list_all2 (\<lambda>x r. Parse fl ep x et (Zero et) = Done r)
                 (Split value CHR '','') es))"
proof -
  have unf: "ParseWithContext fl value t v pp =
      (case getParser pp (Kind et) of
         None \<Rightarrow> Failed (UnsupportedSliceElem (Kind et)) v
       | Some ep \<Rightarrow>
           (case parseElems fl ep et (Split value CHR '','') [] of
              Done slice \<Rightarrow> Done (VSlice slice)
            | Failed err slice \<Rightarrow> Failed err v
            | Panicked \<Rightarrow> Panicked))"
    using assms
    by (simp add: ParseWithContext.simps Set_def Let_def
          split: option.splits outcome.splits)
  have a: "getParser pp (Kind et) = None \<Longrightarrow>
            ParseWithContext fl value t v pp = Failed (UnsupportedSliceElem (Kind et)) v"
    by (simp add: unf)
  have b: "ParseWithContext fl value t v pp = Failed e v"
    if "getParser pp (Kind et) = Some ep" "Split value CHR '','' = pre @ x # post"
       "\<forall>y \<in> set pre. \<exists>r. Parse fl ep y et (Zero et) = Done r"
       "Parse fl ep x et (Zero et) = Failed e el" for ep pre x post e el
  proof -
    from that have "\<exists>sl. parseElems fl ep et (Split value CHR '','') [] = Failed e sl"
      unfolding parseElems_failed_iff by blast
    with that(1) show ?thesis by (auto simp: unf)
  qed
  have c: "ParseWithContext fl value t v pp = Failed e v1 \<Longrightarrow> v1 = v" for e v1
    by (auto simp: unf split: option.splits outcome.splits)
  have d: "\<exists>ep es. getParser pp (Kind et) = Some ep \<and> v1 = VSlice es \<and>
               list_all2 (\<lambda>x r. Parse fl ep x et (Zero et) = Done r)
                 (Split value CHR '','') es"
    if "ParseWithContext fl value t v pp = Done v1" for v1
  proof -
    from that obtain ep sl where ep: "getParser pp (Kind et) = Some ep"
      and sl: "parseElems fl ep et (Split value CHR '','') [] = Done sl" and v1: "v1 = VSlice sl"
      by (auto simp: unf split: option.splits outcome.splits)
    from parseElems_acc [OF sl] ep v1 show ?thesis by auto
  qed
  have b2: "\<exists>e. ParseWithContext fl value t v pp = Failed e v"
    if ep: "getParser pp (Kind et) = Some ep"
    and fails: "\<exists>x \<in> set (Split value CHR '',''). \<exists>e el.
               Parse fl ep x et (Zero et) = Failed e el"
    and np: "\<forall>x \<in> set (Split value CHR '',''). Parse fl ep x et (Zero et) \<noteq> Panicked"
    for ep
  proof (cases "parseElems fl ep et (Split value CHR '','') []")
    case (Done sl)
    from parseElems_acc [OF Done] obtain es where
      "list_all2 (\<lambda>x e. Parse fl ep x et (Zero et) = Done e) (Split value CHR '','') es"
      by blast
    from list_all2_witness [OF this] fails show ?thesis by fastforce
  next
    case (Failed e sl)
    with ep show ?thesis by (auto simp: unf)
  next
    case Panicked
    with parseElems_no_panic [OF np] show ?thesis by blast
  qed
  show ?thesis
    apply (intro conjI allI impI)
    subgoal using a by blast
    subgoal using b by blast
    subgoal using b2 by blast
    subgoal using c by blast
    subgoal using d by blast
    done
qed

theorem slice_parser_all_or_nothing_witness:
  "''1,a,3'' \<noteq> [] \<and> Kind (SliceOf (Basic reflect_Int64)) = reflect_Slice \<and>
   Elem (SliceOf (Basic reflect_Int64)) = Some (Basic reflect_Int64) \<and>
   Split ''1,a,3'' CHR '','' = [''1''] @ ''a'' # [''3''] \<and>
   ParseWithContext exampleFloatlib ''1,a,3'' (SliceOf (Basic reflect_Int64))
       (VSlice [VInt 7]) None
     = Failed (NumError ''ParseInt'' ''a'' ErrSyntax) (VSlice [VInt 7]) \<and>
   ParseWithContext exampleFloatlib ''1,2,3'' (SliceOf (Basic reflect_Int64))
       (VSlice [VInt 7]) None
     = Done (VSlice [VInt 1, VInt 2, VInt 3])"
  using slice_parser_all_or_nothing [of "''1,a,3''" "SliceOf (Basic reflect_Int64)"
          "Basic reflect_Int64" None exampleFloatlib "VSlice [VInt 7]"]
  by (simp add: ParseWithContext.simps Parse.simps getParser_def defaultParsers_def
        parser_defs strconv_defs setter_defs)

subsection \<open>Duration and slice fields bypass the registry\<close>

text \<open>
  C10.  A field of type \<open>time.Duration\<close> is parsed by the built-in
  \<open>DurationParser\<close> and a field of slice kind by the built-in
  \<open>ParseWithContext\<close>, whatever the loader's registry holds: registering a
  parser for any kind (that of \<open>time.Duration\<close>, \<open>int64\<close>, included) does not
  change how a duration field is processed, and registering one for a kind
  other than the element kind (the slice kind included, unless the elements
  are slices themselves) does not change how a slice field is processed.  Two
  loaders with the same validators process a duration field alike, and a
  slice field alike when they agree on the parser of its element kind: the
  registry reaches a slice field only through that parser.  A registered
  parser for another kind than the field's leaves every other field alone too.
\<close>

theorem duration_and_slice_bypass_registry:
  "(Type fieldType = time_Duration \<longrightarrow>
      parseAndValidateField fl l raw v fieldType
        = (case DurationParser_Parse fl raw (Type fieldType) v of
             Done v1 \<Rightarrow> validateField fl l v1 fieldType
           | Failed err v1 \<Rightarrow> Failed err v1
           | Panicked \<Rightarrow> Panicked) \<and>
      parseAndValidateField fl (applyOption (WithParser k p) l) raw v fieldType
        = parseAndValidateField fl l raw v fieldType \<and>
      (\<forall>l2. validators l2 = validators l \<longrightarrow>
         parseAndValidateField fl l2 raw v fieldType
           = parseAndValidateField fl l raw v fieldType)) \<and>
   (Kind (Type fieldType) = reflect_Slice \<longrightarrow>
      parseAndValidateField fl l raw v fieldType
        = (case ParseWithContext fl raw (Type fieldType) v (Some (parsers l)) of
             Done v1 \<Rightarrow> validateField fl l v1 fieldType
           | Failed err v1 \<Rightarrow> Failed err v1
           | Panicked \<Rightarrow> Panicked) \<and>
      (\<forall>et. Elem (Type fieldType) = Some et \<and> k \<noteq> Kind et \<longrightarrow>
         parseAndValidateField fl (applyOption (WithParser k p) l) raw v fieldType
           = parseAndValidateField fl l raw v fieldType) \<and>
      (\<forall>et l2. Elem (Type fieldType) = Some et \<and> validators l2 = validators l \<and>
           parsers l2 (Kind et) = parsers l (Kind et) \<longrightarrow>
         parseAndValidateField fl l2 raw v fieldType
           = parseAndValidateField fl l raw v fieldType)) \<and>
   (Type fieldType \<noteq> time_Duration \<and> Kind (Type fieldType) \<noteq> reflect_Slice \<and>
    k \<noteq> Kind (Type fieldType) \<longrightarrow>
      parseAndValidateField fl (applyOption (WithParser k p) l) raw v fieldType
        = parseAndValidateField fl l raw v fieldType)"
proof -
  have kd: "Kind time_Duration \<noteq> reflect_Slice"
    by (simp add: time_Duration_def)
  have pwc: "ParseWithContext fl raw t v (Some ((parsers l)(k \<mapsto> p)))
               = ParseWithContext fl raw t v (Some (parsers l))"
    if "Elem t = Some et" "k \<noteq> Kind et" for t et
    using that by (simp add: ParseWithContext.simps getParser_def)
  have vf: "validateField fl (l\<lparr>parsers := ps\<rparr>) x fieldType = validateField fl l x fieldType"
    for ps x
    by (simp add: validateField_def)
  have gp: "getParserForType l = parsers l"
    by (rule ext) (simp add: getParserForType_def)
  have gp2: "getParserForType (l\<lparr>parsers := ps\<rparr>) = ps" for ps
    by (rule ext) (simp add: getParserForType_def)
  have d: "Type fieldType = time_Duration \<Longrightarrow>
      parseAndValidateField fl l raw v fieldType
        = (case DurationParser_Parse fl raw (Type fieldType) v of
             Done v1 \<Rightarrow> validateField fl l v1 fieldType
           | Failed err v1 \<Rightarrow> Failed err v1
           | Panicked \<Rightarrow> Panicked) \<and>
      parseAndValidateField fl (applyOption (WithParser k p) l) raw v fieldType
        = parseAndValidateField fl l raw v fieldType"
    by (simp add: parseAndValidateField_def parseAndValidateDuration_def Parse.simps vf
          split: outcome.splits)
  have s1: "Kind (Type fieldType) = reflect_Slice \<Longrightarrow>
      parseAndValidateField fl l raw v fieldType
        = (case ParseWithContext fl raw (Type fieldType) v (Some (parsers l)) of
             Done v1 \<Rightarrow> validateField fl l v1 fieldType
           | Failed err v1 \<Rightarrow> Failed err v1
           | Panicked \<Rightarrow> Panicked)"
    using kd by (auto simp: parseAndValidateField_def parseAndValidateSlice_def gp)
  have s2: "parseAndValidateField fl (applyOption (WithParser k p) l) raw v fieldType
           = parseAndValidateField fl l raw v fieldType"
    if "Kind (Type fieldType) = reflect_Slice" "Elem (Type fieldType) = Some et" "k \<noteq> Kind et"
    for et
    using that kd pwc [OF that(2) that(3)]
    by (auto simp: parseAndValidateField_def parseAndValidateSlice_def gp gp2 vf
          split: outcome.splits)
  have d2: "parseAndValidateField fl l2 raw v fieldType
           = parseAndValidateField fl l raw v fieldType"
    if "Type fieldType = time_Duration" "validators l2 = validators l" for l2
    using that
    by (simp add: parseAndValidateField_def parseAndValidateDuration_def Parse.simps
          validateField_def split: outcome.splits)
  have s3: "parseAndValidateField fl l2 raw v fieldType
           = parseAndValidateField fl l raw v fieldType"
    if "Kind (Type fieldType) = reflect_Slice" "Elem (Type fieldType) = Some et"
       "validators l2 = validators l" "parsers l2 (Kind et) = parsers l (Kind et)"
    for et l2
  proof -
    have "ParseWithContext fl raw (Type fieldType) v (Some (getParserForType l2))
            = ParseWithContext fl raw (Type fieldType) v (Some (getParserForType l))"
      using that by (simp add: ParseWithContext.simps getParser_def getParserForType_def)
    with that kd show ?thesis
      by (auto simp: parseAndValidateField_def parseAndValidateSlice_def validateField_def
            split: outcome.splits)
  qed
  have o: "Type fieldType \<noteq> time_Duration \<Longrightarrow> Kind (Type fieldType) \<noteq> reflect_Slice \<Longrightarrow>
    k \<noteq> Kind (Type fieldType) \<Longrightarrow>
      parseAndValidateField fl (applyOption (WithParser k p) l) raw v fieldType
        = parseAndValidateField fl l raw v fieldType"
    by (simp add: parseAndValidateField_def vf split: option.splits outcome.splits)
  show ?thesis
    apply (intro conjI allI impI)
    subgoal using d by blast
    subgoal using d by blast
    subgoal using d2 by blast
    subgoal using s1 by blast
    subgoal using s2 by blast
    subgoal using s3 by blast
    subgoal using o by blast
    done
qed

theorem duration_and_slice_bypass_registry_witness:
  "Type (StructField ''Timeout'' [(''env'', ''TIMEOUT'')] time_Duration) = time_Duration \<and>
   parseAndValidateField exampleFloatlib
       (NewEnvLoader [WithParser reflect_Int64 StringParser]) ''30'' (VInt 0)
       (StructField ''Timeout'' [(''env'', ''TIMEOUT'')] time_Duration)
     = Done (VInt 30000000000) \<and>
   parseAndValidateField exampleFloatlib
       (NewEnvLoader [WithParser reflect_Slice StringParser]) ''a,b'' (VSlice [])
       (StructField ''Names'' [(''env'', ''NAMES'')] (SliceOf (Basic reflect_String)))
     = Done (VSlice [VString ''a'', VString ''b''])"
  using duration_and_slice_bypass_registry
    [of "StructField ''Timeout'' [(''env'', ''TIMEOUT'')] time_Duration" exampleFloatlib
        "NewEnvLoader []" "''30''" "VInt 0" reflect_Int64 StringParser]
  by (simp add: loader_defs tag_defs Parse.simps ParseWithContext.simps getParser_def
        parser_defs strconv_defs duration_defs setter_defs validator_defs)

end
